theory Spec2Isabelle
  imports Main
begin

section \<open>JavaScript values used by the extension\<close>

text \<open>
  The three states of \<^verbatim>\<open>VideoState\<close> in \<^verbatim>\<open>src/index.js\<close>:
  \<^verbatim>\<open>'off'\<close>, \<^verbatim>\<open>'on'\<close> and \<^verbatim>\<open>'on-flipped'\<close>.
\<close>

datatype VideoState = OFF | ON | ON_FLIPPED

text \<open>
  The values that \<^verbatim>\<open>this.trainResult\<close> and the entries of
  \<^verbatim>\<open>this.trainTypes\<close> can hold: \<^verbatim>\<open>undefined\<close>, a number, or a string.
  Block arguments \<^verbatim>\<open>args.STRING\<close> are strings.  Strict equality \<^verbatim>\<open>===\<close>
  on these values is equality of the datatype.
\<close>

datatype jsval = JUndefined | JNumber int | JString string

fun truthy :: "jsval \<Rightarrow> bool" where
  "truthy JUndefined = False"
| "truthy (JNumber n) = (n \<noteq> 0)"
| "truthy (JString s) = (s \<noteq> [])"

text \<open>The operator \<^verbatim>\<open>a || b\<close>.\<close>

definition js_or :: "jsval \<Rightarrow> jsval \<Rightarrow> jsval" where
  "js_or a b = (if truthy a then a else b)"

text \<open>
  Array read \<^verbatim>\<open>xs[i]\<close>: an index outside the array (in particular \<open>-1\<close>) reads
  \<^verbatim>\<open>undefined\<close>.
\<close>

definition js_get :: "jsval list \<Rightarrow> int \<Rightarrow> jsval" where
  "js_get xs i = (if 0 \<le> i \<and> nat i < length xs then xs ! nat i else JUndefined)"

text \<open>
  Array write \<^verbatim>\<open>xs[k] = v\<close>: a write past the end extends the array, the skipped
  positions reading \<^verbatim>\<open>undefined\<close>.
\<close>

definition js_set :: "jsval list \<Rightarrow> nat \<Rightarrow> jsval \<Rightarrow> jsval list" where
  "js_set xs k v =
     (if k < length xs then xs[k := v]
      else xs @ replicate (k - length xs) JUndefined @ [v])"

text \<open>
  \<^verbatim>\<open>Array.prototype.indexOf\<close>: the index of the first element strictly equal to the
  argument, \<open>-1\<close> when there is none.
\<close>

fun indexOf_from :: "jsval list \<Rightarrow> jsval \<Rightarrow> int \<Rightarrow> int" where
  "indexOf_from [] v i = - 1"
| "indexOf_from (x # xs) v i = (if x = v then i else indexOf_from xs v (i + 1))"

definition indexOf :: "jsval list \<Rightarrow> jsval \<Rightarrow> int" where
  "indexOf xs v = indexOf_from xs v 0"

section \<open>The exemplar store\<close>

text \<open>
  Modelled from the spec: the package \<^verbatim>\<open>@tensorflow-models/knn-classifier\<close>, whose
  object \<^verbatim>\<open>this.classifier\<close> is the exemplar store, is imported by
  \<^verbatim>\<open>src/index.js\<close> and is not part of the sources.  Following sections 3 and 4.1 of
  the specification, the store holds, for each class index, the sequence of embeddings added
  so far: \<^verbatim>\<open>addExample\<close> appends one embedding to one class, \<^verbatim>\<open>clearClass\<close>
  empties one class and is idempotent, and \<^verbatim>\<open>getClassExampleCount\<close> reports the
  length of each sequence.  The store is kept as the list of (class index, embedding) pairs in
  the order they were added.  The count object has one entry per populated class, so that
  \<^verbatim>\<open>Object.keys(counts).length\<close> is zero exactly when no exemplar exists anywhere
  (section 4.3, step 3), and a class without an entry reads \<^verbatim>\<open>undefined\<close>.  Class
  indices are the literals \<open>0\<close> to \<open>5\<close> passed by the training blocks, hence natural
  numbers.
\<close>

type_synonym 'e KNNClassifier = "(nat \<times> 'e) list"

text \<open>
  Modelled from the spec: \<^verbatim>\<open>knnClassifier.create()\<close> of the absent package; a new
  store holds no exemplar.
\<close>

definition create :: "'e KNNClassifier" where
  "create = []"

text \<open>
  Modelled from the spec: \<^verbatim>\<open>addExample\<close> of the absent package appends the embedding
  to the sequence of the given class (section 4.1).
\<close>

definition addExample :: "'e \<Rightarrow> nat \<Rightarrow> 'e KNNClassifier \<Rightarrow> 'e KNNClassifier" where
  "addExample e k ds = ds @ [(k, e)]"

text \<open>
  Modelled from the spec: \<^verbatim>\<open>clearClass\<close> of the absent package empties the sequence
  of one class and leaves the others (section 4.1).
\<close>

definition knn_clearClass :: "nat \<Rightarrow> 'e KNNClassifier \<Rightarrow> 'e KNNClassifier" where
  "knn_clearClass k ds = filter (\<lambda>p. fst p \<noteq> k) ds"

text \<open>The exemplar sequence of one class.\<close>

definition exemplars :: "'e KNNClassifier \<Rightarrow> nat \<Rightarrow> 'e list" where
  "exemplars ds k = map snd (filter (\<lambda>p. fst p = k) ds)"

text \<open>
  Modelled from the spec: \<^verbatim>\<open>getClassExampleCount\<close> of the absent package returns
  the count object, one entry per populated class with the length of its sequence
  (sections 4.1 and 4.3).
\<close>

definition getClassExampleCount :: "'e KNNClassifier \<Rightarrow> (nat \<times> nat) list" where
  "getClassExampleCount ds =
     map (\<lambda>k. (k, length (exemplars ds k))) (remdups (map fst ds))"

text \<open>
  Property read \<^verbatim>\<open>counts[index]\<close> on the count object, as a JavaScript value: the
  index comes from \<^verbatim>\<open>indexOf\<close> and may be \<open>-1\<close>, which is never a key.
\<close>

definition counts_get :: "(nat \<times> nat) list \<Rightarrow> int \<Rightarrow> jsval" where
  "counts_get counts i =
     (if i < 0 then JUndefined
      else case map_of counts (nat i) of
             None \<Rightarrow> JUndefined
           | Some n \<Rightarrow> JNumber (int n))"

text \<open>\<^verbatim>\<open>counts[index] || 0\<close>, which is always a number.\<close>

definition count_or_0 :: "(nat \<times> nat) list \<Rightarrow> int \<Rightarrow> nat" where
  "count_or_0 counts i =
     (case js_or (counts_get counts i) (JNumber 0) of
        JNumber n \<Rightarrow> nat n
      | _ \<Rightarrow> 0)"

section \<open>The extension object\<close>

text \<open>The per-target motion state of \<^verbatim>\<open>DEFAULT_MOTION_STATE\<close>.\<close>

record MotionState =
  motionFrameNumber :: int
  motionAmount :: int
  motionDirection :: int

text \<open>
  Callbacks that the browser holds for the extension and runs later:
  the \<^verbatim>\<open>img.onload\<close> handler set by a training block (class index,
  \<^verbatim>\<open>args.STRING\<close>, the captured frame), the \<^verbatim>\<open>img.onload\<close> handler set
  by \<^verbatim>\<open>gotResult\<close> (the captured frame), and the rest of that handler after
  \<^verbatim>\<open>await this.classifier.predictClass(xlogits)\<close>.
\<close>

datatype ('f, 'e) task =
    TrainOnload nat string 'f
  | SampleOnload 'f
  | AwaitPredict 'e

text \<open>
  The fields of \<^verbatim>\<open>Scratch3Knn\<close> together with the parts of the runtime it reads:
  whether \<^verbatim>\<open>runtime.ioDevices\<close> exists, the stage's \<^verbatim>\<open>videoState\<close>
  (\<open>None\<close> when \<^verbatim>\<open>getTargetForStage()\<close> returns nothing), the custom motion state of
  each target, and the pending callbacks.  \<open>'f\<close> is the type of frames, \<open>'e\<close> of embeddings
  and \<open>'c\<close> of the \<^verbatim>\<open>confidences\<close> object of a prediction.  The field
  \<open>mobilenet\<close> is \<open>None\<close> until \<^verbatim>\<open>mobilenetModule.load()\<close> has resolved.
\<close>

record ('f, 'e, 'c) Scratch3Knn =
  ioDevices :: bool
  stage :: "VideoState option"
  targets :: "MotionState option list"
  classifier :: "'e KNNClassifier"
  mobilenet :: "('f \<Rightarrow> 'e) option"
  trainTypes :: "jsval list"
  trainResult :: jsval
  trainConfidences :: "'c option"
  pending :: "('f, 'e) task list"

text \<open>What a handler shows to the user or raises.\<close>

datatype alert =
    AlertOpenCamera
  | AlertNoTrainingData
  | AlertClassNotFound

datatype outcome =
    Quiet
  | Alert alert
  | Say "(jsval \<times> nat) list"
  | TypeError

text \<open>The getter \<^verbatim>\<open>globalVideoState\<close>.\<close>

definition globalVideoState :: "('f, 'e, 'c) Scratch3Knn \<Rightarrow> VideoState" where
  "globalVideoState st = (case stage st of Some v \<Rightarrow> v | None \<Rightarrow> ON)"

text \<open>\<^verbatim>\<open>getResult\<close> and \<^verbatim>\<open>whenGetResult\<close>.\<close>

definition getResult :: "('f, 'e, 'c) Scratch3Knn \<Rightarrow> jsval" where
  "getResult st = trainResult st"

definition whenGetResult :: "string \<Rightarrow> ('f, 'e, 'c) Scratch3Knn \<Rightarrow> bool" where
  "whenGetResult s st =
     (if trainResult st = JUndefined then False
      else JString s = trainResult st)"

text \<open>
  The setter \<^verbatim>\<open>globalVideoState\<close>: without a stage nothing is stored.
\<close>

definition set_globalVideoState ::
  "VideoState \<Rightarrow> ('f, 'e, 'c) Scratch3Knn \<Rightarrow> ('f, 'e, 'c) Scratch3Knn" where
  "set_globalVideoState v st =
     (case stage st of Some _ \<Rightarrow> st\<lparr>stage := Some v\<rparr> | None \<Rightarrow> st)"

text \<open>
  \<^verbatim>\<open>videoToggle\<close>: stores the state, then switches the video device, which raises
  when \<^verbatim>\<open>runtime.ioDevices\<close> is missing.  The device's own settings (enabled,
  mirror) are not read by the extension and are left out.
\<close>

definition videoToggle ::
  "VideoState \<Rightarrow> ('f, 'e, 'c) Scratch3Knn \<Rightarrow> outcome \<times> ('f, 'e, 'c) Scratch3Knn" where
  "videoToggle v st =
     (let st' = set_globalVideoState v st
      in if ioDevices st' then (Quiet, st') else (TypeError, st'))"

text \<open>
  The constructor: \<^verbatim>\<open>knnInit\<close> creates the classifier at once and starts loading
  the embedding model; \<^verbatim>\<open>trainResult\<close> and \<^verbatim>\<open>trainConfidences\<close> are never
  assigned and so are \<^verbatim>\<open>undefined\<close>.  Its call of \<^verbatim>\<open>videoToggle\<close> stores the
  video state it has just read and changes nothing.
\<close>

definition constructor ::
  "bool \<Rightarrow> VideoState option \<Rightarrow> MotionState option list \<Rightarrow> ('f, 'e, 'c) Scratch3Knn" where
  "constructor io stg tgs =
     \<lparr>ioDevices = io, stage = stg, targets = tgs,
      classifier = create, mobilenet = None,
      trainTypes = [JString ''A'', JString ''B'', JString ''C'',
                    JString ''D'', JString ''E'', JString ''F''],
      trainResult = JUndefined, trainConfidences = None, pending = []\<rparr>"

text \<open>The promise of \<^verbatim>\<open>mobilenetModule.load()\<close> in \<^verbatim>\<open>knnInit\<close> resolves.\<close>

definition knnInit_loaded ::
  "('f \<Rightarrow> 'e) \<Rightarrow> ('f, 'e, 'c) Scratch3Knn \<Rightarrow> ('f, 'e, 'c) Scratch3Knn" where
  "knnInit_loaded m st = st\<lparr>mobilenet := Some m\<rparr>"

definition isloaded :: "('f, 'e, 'c) Scratch3Knn \<Rightarrow> bool" where
  "isloaded st = (mobilenet st \<noteq> None)"

text \<open>
  \<^verbatim>\<open>reset\<close>: for every target that has a motion state, zero its amount and direction.
  The handler is registered for \<^verbatim>\<open>PROJECT_RUN_START\<close> only when
  \<^verbatim>\<open>runtime.ioDevices\<close> exists.
\<close>

definition reset :: "('f, 'e, 'c) Scratch3Knn \<Rightarrow> ('f, 'e, 'c) Scratch3Knn" where
  "reset st =
     st\<lparr>targets :=
          map (map_option (\<lambda>m. m\<lparr>motionAmount := 0, motionDirection := 0\<rparr>)) (targets st)\<rparr>"

definition project_run_start :: "('f, 'e, 'c) Scratch3Knn \<Rightarrow> ('f, 'e, 'c) Scratch3Knn" where
  "project_run_start st = (if ioDevices st then reset st else st)"

text \<open>\<^verbatim>\<open>clearClass\<close> of the extension forwards to the classifier.\<close>

definition clearClass ::
  "nat \<Rightarrow> ('f, 'e, 'c) Scratch3Knn \<Rightarrow> ('f, 'e, 'c) Scratch3Knn" where
  "clearClass classIndex st = st\<lparr>classifier := knn_clearClass classIndex (classifier st)\<rparr>"

text \<open>
  \<^verbatim>\<open>updateExampleCounts\<close> emits one \<^verbatim>\<open>SAY\<close> message listing, for the six
  slots, the label and \<^verbatim>\<open>counts[i] || 0\<close>; it changes no field.
\<close>

definition updateExampleCounts :: "('f, 'e, 'c) Scratch3Knn \<Rightarrow> outcome" where
  "updateExampleCounts st =
     (let counts = getClassExampleCount (classifier st)
      in Say (map (\<lambda>i. (js_get (trainTypes st) i, count_or_0 counts i)) [0, 1, 2, 3, 4, 5]))"

text \<open>
  The body shared by \<^verbatim>\<open>trainA\<close> to \<^verbatim>\<open>trainF\<close>, which differ only in the class
  index.  The argument \<open>frame\<close> is what \<^verbatim>\<open>video.getFrame\<close> returns at the call
  (\<open>None\<close> for \<^verbatim>\<open>null\<close>, on which \<^verbatim>\<open>toDataURL\<close> raises).  The work after
  the guard happens in the image's \<^verbatim>\<open>onload\<close> handler.
\<close>

definition train ::
  "nat \<Rightarrow> string \<Rightarrow> 'f option \<Rightarrow> ('f, 'e, 'c) Scratch3Knn
     \<Rightarrow> outcome \<times> ('f, 'e, 'c) Scratch3Knn" where
  "train k s frame st =
     (if globalVideoState st = OFF then (Alert AlertOpenCamera, st)
      else if \<not> ioDevices st then (TypeError, st)
      else case frame of
             None \<Rightarrow> (TypeError, st)
           | Some f \<Rightarrow> (Quiet, st\<lparr>pending := pending st @ [TrainOnload k s f]\<rparr>))"

definition train_onload ::
  "nat \<Rightarrow> string \<Rightarrow> 'f \<Rightarrow> ('f, 'e, 'c) Scratch3Knn
     \<Rightarrow> outcome \<times> ('f, 'e, 'c) Scratch3Knn" where
  "train_onload k s f st =
     (case mobilenet st of
        None \<Rightarrow> (TypeError, st)
      | Some infer \<Rightarrow>
          (let st1 = st\<lparr>classifier := addExample (infer f) k (classifier st)\<rparr>;
               st2 = st1\<lparr>trainTypes := js_set (trainTypes st1) k (JString s)\<rparr>
           in (updateExampleCounts st2, st2)))"

definition trainA ::
  "string \<Rightarrow> 'f option \<Rightarrow> ('f, 'e, 'c) Scratch3Knn \<Rightarrow> outcome \<times> ('f, 'e, 'c) Scratch3Knn" where
  "trainA = train 0"

definition trainB ::
  "string \<Rightarrow> 'f option \<Rightarrow> ('f, 'e, 'c) Scratch3Knn \<Rightarrow> outcome \<times> ('f, 'e, 'c) Scratch3Knn" where
  "trainB = train 1"

definition trainC ::
  "string \<Rightarrow> 'f option \<Rightarrow> ('f, 'e, 'c) Scratch3Knn \<Rightarrow> outcome \<times> ('f, 'e, 'c) Scratch3Knn" where
  "trainC = train 2"

definition trainD ::
  "string \<Rightarrow> 'f option \<Rightarrow> ('f, 'e, 'c) Scratch3Knn \<Rightarrow> outcome \<times> ('f, 'e, 'c) Scratch3Knn" where
  "trainD = train 3"

definition trainE ::
  "string \<Rightarrow> 'f option \<Rightarrow> ('f, 'e, 'c) Scratch3Knn \<Rightarrow> outcome \<times> ('f, 'e, 'c) Scratch3Knn" where
  "trainE = train 4"

definition trainF ::
  "string \<Rightarrow> 'f option \<Rightarrow> ('f, 'e, 'c) Scratch3Knn \<Rightarrow> outcome \<times> ('f, 'e, 'c) Scratch3Knn" where
  "trainF = train 5"

text \<open>The six training blocks, by class index.\<close>

definition train_blocks ::
  "(string \<Rightarrow> 'f option \<Rightarrow> ('f, 'e, 'c) Scratch3Knn
      \<Rightarrow> outcome \<times> ('f, 'e, 'c) Scratch3Knn) list" where
  "train_blocks = [trainA, trainB, trainC, trainD, trainE, trainF]"

text \<open>\<^verbatim>\<open>Samples\<close> and \<^verbatim>\<open>resetTrain\<close>.\<close>

definition Samples :: "string \<Rightarrow> ('f, 'e, 'c) Scratch3Knn \<Rightarrow> nat" where
  "Samples s st =
     (let counts = getClassExampleCount (classifier st);
          index = indexOf (trainTypes st) (JString s)
      in count_or_0 counts index)"

definition resetTrain ::
  "string \<Rightarrow> ('f, 'e, 'c) Scratch3Knn \<Rightarrow> outcome \<times> ('f, 'e, 'c) Scratch3Knn" where
  "resetTrain s st =
     (let counts = getClassExampleCount (classifier st);
          index = indexOf (trainTypes st) (JString s)
      in if \<not> truthy (counts_get counts index) then (Alert AlertNoTrainingData, st)
         else if index < 0 then (Alert AlertClassNotFound, st)
         else (let st' = clearClass (nat index) st
               in (updateExampleCounts st', st')))"

section \<open>The sampling cycle\<close>

text \<open>
  What \<^verbatim>\<open>predictClass\<close> resolves to.  The prediction itself is computed by the
  classifier package on floating-point tensors and is an input of the model.
\<close>

record 'c prediction =
  classIndex :: int
  confidences :: 'c

text \<open>The promise returned by \<^verbatim>\<open>gotResult\<close>, as it stands when the call returns.\<close>

datatype promise = Resolved | Rejected | Unsettled

text \<open>
  \<^verbatim>\<open>gotResult\<close>: the synchronous part.  Without \<^verbatim>\<open>runtime.ioDevices\<close> the
  executor raises and the promise is rejected.  Otherwise the frame is requested; with no key
  in the count object, or with no frame, the promise is resolved at once; else the image
  starts loading.
\<close>

definition gotResult ::
  "'f option \<Rightarrow> ('f, 'e, 'c) Scratch3Knn \<Rightarrow> promise \<times> ('f, 'e, 'c) Scratch3Knn" where
  "gotResult frame st =
     (if \<not> ioDevices st then (Rejected, st)
      else if length (map fst (getClassExampleCount (classifier st))) = 0 then (Resolved, st)
      else case frame of
             Some f \<Rightarrow> (Unsettled, st\<lparr>pending := pending st @ [SampleOnload f]\<rparr>)
           | None \<Rightarrow> (Resolved, st))"

text \<open>
  The \<^verbatim>\<open>onload\<close> handler of \<^verbatim>\<open>gotResult\<close> up to its \<^verbatim>\<open>await\<close>: the
  embedding is extracted and \<^verbatim>\<open>predictClass\<close> is called.
\<close>

definition gotResult_onload ::
  "'f \<Rightarrow> ('f, 'e, 'c) Scratch3Knn \<Rightarrow> outcome \<times> ('f, 'e, 'c) Scratch3Knn" where
  "gotResult_onload f st =
     (case mobilenet st of
        None \<Rightarrow> (TypeError, st)
      | Some infer \<Rightarrow> (Quiet, st\<lparr>pending := pending st @ [AwaitPredict (infer f)]\<rparr>))"

text \<open>The handler after the \<^verbatim>\<open>await\<close>: the result is published.\<close>

definition gotResult_resume ::
  "'c prediction \<Rightarrow> ('f, 'e, 'c) Scratch3Knn \<Rightarrow> ('f, 'e, 'c) Scratch3Knn" where
  "gotResult_resume res st =
     st\<lparr>trainResult := js_or (js_get (trainTypes st) (classIndex res)) (JNumber 0),
        trainConfidences := Some (confidences res)\<rparr>"

text \<open>
  The callback of \<^verbatim>\<open>setInterval\<close>, run every 800 ms: the only test is that the video
  state is \<^verbatim>\<open>'on'\<close>.
\<close>

definition interval ::
  "'f option \<Rightarrow> ('f, 'e, 'c) Scratch3Knn \<Rightarrow> ('f, 'e, 'c) Scratch3Knn" where
  "interval frame st =
     (if globalVideoState st = ON then snd (gotResult frame st) else st)"

section \<open>The event loop\<close>

text \<open>
  JavaScript runs one handler at a time.  Between two handlers the browser may run any
  pending callback; \<open>fire i res\<close> runs the \<open>i\<close>-th one.  For a callback waiting on
  \<^verbatim>\<open>predictClass\<close>, \<open>res\<close> is the value the promise resolves to, or \<open>None\<close> when it is
  rejected, in which case the handler ends without publishing.
\<close>

definition remove_nth :: "nat \<Rightarrow> 'a list \<Rightarrow> 'a list" where
  "remove_nth i xs = take i xs @ drop (Suc i) xs"

definition fire ::
  "nat \<Rightarrow> 'c prediction option \<Rightarrow> ('f, 'e, 'c) Scratch3Knn \<Rightarrow> ('f, 'e, 'c) Scratch3Knn" where
  "fire i res st =
     (if i < length (pending st) then
        (let st0 = st\<lparr>pending := remove_nth i (pending st)\<rparr>
         in case pending st ! i of
              TrainOnload k s f \<Rightarrow> snd (train_onload k s f st0)
            | SampleOnload f \<Rightarrow> snd (gotResult_onload f st0)
            | AwaitPredict x \<Rightarrow>
                (case res of Some r \<Rightarrow> gotResult_resume r st0 | None \<Rightarrow> st0))
      else st)"

text \<open>
  The events of a session: the timer fires (with what \<^verbatim>\<open>getFrame\<close> returns), a
  block is run (training block number \<open>k\<close>, reset, video toggle), the project starts, the
  embedding model finishes loading, or a pending callback runs.
\<close>

datatype ('f, 'e, 'c) event =
    Interval "'f option"
  | TrainBlock nat string "'f option"
  | ResetTrainBlock string
  | VideoToggleBlock VideoState
  | ProjectRunStart
  | MobilenetLoaded "'f \<Rightarrow> 'e"
  | Fire nat "'c prediction option"

fun step ::
  "('f, 'e, 'c) event \<Rightarrow> ('f, 'e, 'c) Scratch3Knn \<Rightarrow> ('f, 'e, 'c) Scratch3Knn" where
  "step (Interval frame) st = interval frame st"
| "step (TrainBlock k s frame) st =
     (if k < 6 then snd ((train_blocks ! k) s frame st) else st)"
| "step (ResetTrainBlock s) st = snd (resetTrain s st)"
| "step (VideoToggleBlock v) st = snd (videoToggle v st)"
| "step ProjectRunStart st = project_run_start st"
| "step (MobilenetLoaded m) st = knnInit_loaded m st"
| "step (Fire i res) st = fire i res st"

fun run ::
  "('f, 'e, 'c) event list \<Rightarrow> ('f, 'e, 'c) Scratch3Knn \<Rightarrow> ('f, 'e, 'c) Scratch3Knn" where
  "run [] st = st"
| "run (ev # evs) st = run evs (step ev st)"

section \<open>Observations on states and traces\<close>

text \<open>
  A sampling cycle is in flight from the call of \<^verbatim>\<open>gotResult\<close> that starts loading
  its image until its handler has published a result: it is one of the pending callbacks
  of \<^verbatim>\<open>gotResult\<close>.
\<close>

fun is_sample :: "('f, 'e) task \<Rightarrow> bool" where
  "is_sample (TrainOnload k s f) = False"
| "is_sample (SampleOnload f) = True"
| "is_sample (AwaitPredict x) = True"

definition in_flight :: "('f, 'e, 'c) Scratch3Knn \<Rightarrow> nat" where
  "in_flight st = length (filter is_sample (pending st))"

text \<open>
  A training call to slot \<open>k\<close> completes when its \<^verbatim>\<open>onload\<close> handler runs with the
  embedding model loaded; a reset clears slot \<open>k\<close> when its label resolves to \<open>k\<close> and
  the slot holds an exemplar.
\<close>

fun train_completes ::
  "nat \<Rightarrow> ('f, 'e, 'c) event \<Rightarrow> ('f, 'e, 'c) Scratch3Knn \<Rightarrow> bool" where
  "train_completes k (Fire i res) st =
     (i < length (pending st) \<and>
      (case pending st ! i of
         TrainOnload k' s f \<Rightarrow> k' = k \<and> mobilenet st \<noteq> None
       | SampleOnload f \<Rightarrow> False
       | AwaitPredict x \<Rightarrow> False))"
| "train_completes k ev st = False"

fun reset_clears ::
  "nat \<Rightarrow> ('f, 'e, 'c) event \<Rightarrow> ('f, 'e, 'c) Scratch3Knn \<Rightarrow> bool" where
  "reset_clears k (ResetTrainBlock s) st =
     (indexOf (trainTypes st) (JString s) = int k \<and> exemplars (classifier st) k \<noteq> [])"
| "reset_clears k ev st = False"

text \<open>
  The number of training calls to slot \<open>k\<close> completed since the slot was last cleared,
  counted along a trace that starts with \<open>n\<close> of them.
\<close>

fun trained_since_reset ::
  "nat \<Rightarrow> ('f, 'e, 'c) event list \<Rightarrow> ('f, 'e, 'c) Scratch3Knn \<Rightarrow> nat \<Rightarrow> nat" where
  "trained_since_reset k [] st n = n"
| "trained_since_reset k (ev # evs) st n =
     trained_since_reset k evs (step ev st)
       (if reset_clears k ev st then 0
        else if train_completes k ev st then Suc n
        else n)"

section \<open>Example sessions\<close>

text \<open>
  A session with a stage whose video is on and the embedding model loaded; frames and
  embeddings are numbers and the model is the identity.
\<close>

definition ex_infer :: "nat \<Rightarrow> nat" where
  "ex_infer f = f"

definition ex_ready :: "(nat, nat, nat) Scratch3Knn" where
  "ex_ready = knnInit_loaded ex_infer (constructor True (Some ON) [Some \<lparr>motionFrameNumber = 4, motionAmount = 3, motionDirection = 2\<rparr>])"

text \<open>The same after one completed training call to the first slot.\<close>

definition ex_trained :: "(nat, nat, nat) Scratch3Knn" where
  "ex_trained = run [TrainBlock 0 ''A'' (Some 7), Fire 0 None] ex_ready"

text \<open>The same after one completed sampling cycle that predicted class \<open>0\<close>.\<close>

definition ex_published :: "(nat, nat, nat) Scratch3Knn" where
  "ex_published =
     run [Interval (Some 9), Fire 0 None, Fire 0 (Some \<lparr>classIndex = 0, confidences = 1\<rparr>)]
       ex_trained"

text \<open>The same with a second slot trained as well.\<close>

definition ex_two :: "(nat, nat, nat) Scratch3Knn" where
  "ex_two = run [TrainBlock 1 ''B'' (Some 8), Fire 0 None] ex_trained"

text \<open>A session whose embedding model is still loading.\<close>

definition ex_loading :: "(nat, nat, nat) Scratch3Knn" where
  "ex_loading = constructor True (Some ON) []"

text \<open>The same with one sampling cycle in flight.\<close>

definition ex_busy :: "(nat, nat, nat) Scratch3Knn" where
  "ex_busy = run [Interval (Some 9)] ex_two"

text \<open>The ready session with the video switched off.\<close>

definition ex_off :: "(nat, nat, nat) Scratch3Knn" where
  "ex_off = snd (videoToggle OFF ex_ready)"

text \<open>
  A session of events: two completed training calls to the first slot, a reset of it, and
  one more completed training call that renames it.
\<close>

definition ex_session :: "(nat, nat, nat) event list" where
  "ex_session =
     [TrainBlock 0 ''A'' (Some 7), Fire 0 None, TrainBlock 0 ''A'' (Some 8), Fire 0 None,
      ResetTrainBlock ''A'', TrainBlock 0 ''X'' (Some 9), Fire 0 None]"

section \<open>Facts about arrays and the exemplar store\<close>

lemma indexOf_from_ge: "indexOf_from xs v i = - 1 \<or> i \<le> indexOf_from xs v i"
proof (induction xs arbitrary: i)
  case Nil
  show ?case by simp
next
  case (Cons x xs)
  from Cons.IH [of "i + 1"] show ?case by auto
qed

lemma indexOf_from_notin: "0 \<le> i \<Longrightarrow> (indexOf_from xs v i = - 1) = (v \<notin> set xs)"
  by (induction xs arbitrary: i) auto

lemma indexOf_notin: "(indexOf xs v = - 1) = (v \<notin> set xs)"
  by (simp add: indexOf_def indexOf_from_notin)

lemma indexOf_neg_iff: "(indexOf xs v < 0) = (v \<notin> set xs)"
  using indexOf_from_ge [of xs v 0] indexOf_notin [of xs v] by (auto simp: indexOf_def)

lemma indexOf_nonneg_iff: "(0 \<le> indexOf xs v) = (v \<in> set xs)"
  using indexOf_neg_iff [of xs v] by auto

lemma indexOf_from_first:
  "v \<in> set xs \<Longrightarrow>
     \<exists>n < length xs. indexOf_from xs v i = i + int n \<and> xs ! n = v \<and> (\<forall>m < n. xs ! m \<noteq> v)"
proof (induction xs arbitrary: i)
  case Nil
  then show ?case by simp
next
  case (Cons x xs)
  show ?case
  proof (cases "x = v")
    case True
    then show ?thesis by (intro exI [of _ 0]) simp
  next
    case False
    with Cons.prems have "v \<in> set xs" by simp
    from Cons.IH [OF this, of "i + 1"] obtain n where
      n: "n < length xs" "indexOf_from xs v (i + 1) = i + 1 + int n"
         "xs ! n = v" "\<forall>m < n. xs ! m \<noteq> v"
      by auto
    have "\<forall>m < Suc n. (x # xs) ! m \<noteq> v"
      using n(4) False by (auto simp: nth_Cons split: nat.splits)
    with n False show ?thesis
      by (intro exI [of _ "Suc n"]) simp
  qed
qed

lemma map_of_tabulate:
  "map_of (map (\<lambda>k. (k, f k)) ks) k = (if k \<in> set ks then Some (f k) else None)"
  by (induction ks) auto

lemma exemplars_empty_iff: "(exemplars ds k = []) = (k \<notin> fst ` set ds)"
  by (auto simp: exemplars_def filter_empty_conv image_iff)

lemma counts_get_count:
  "counts_get (getClassExampleCount ds) i =
     (if 0 \<le> i \<and> exemplars ds (nat i) \<noteq> []
      then JNumber (int (length (exemplars ds (nat i)))) else JUndefined)"
  by (auto simp: counts_get_def getClassExampleCount_def map_of_tabulate exemplars_empty_iff)

lemma truthy_counts_get:
  "truthy (counts_get (getClassExampleCount ds) i) = (0 \<le> i \<and> exemplars ds (nat i) \<noteq> [])"
  by (simp add: counts_get_count)

lemma count_or_0_count:
  "count_or_0 (getClassExampleCount ds) i =
     (if 0 \<le> i then length (exemplars ds (nat i)) else 0)"
  by (simp add: count_or_0_def counts_get_count js_or_def)

lemma keys_empty_iff: "(length (map fst (getClassExampleCount ds)) = 0) = (ds = [])"
  by (simp add: getClassExampleCount_def)

lemma no_exemplars_iff: "(\<forall>k. exemplars ds k = []) = (ds = [])"
  by (cases ds) (auto simp: exemplars_empty_iff)

lemma exemplars_addExample:
  "exemplars (addExample e k ds) j = (if j = k then exemplars ds j @ [e] else exemplars ds j)"
  by (simp add: exemplars_def addExample_def)

lemma exemplars_clearClass:
  "exemplars (knn_clearClass k ds) j = (if j = k then [] else exemplars ds j)"
  by (induction ds) (auto simp: exemplars_def knn_clearClass_def)

lemma train_blocks_nth: "k < 6 \<Longrightarrow> train_blocks ! k = train k"
proof -
  assume "k < 6"
  then consider "k = 0" | "k = 1" | "k = 2" | "k = 3" | "k = 4" | "k = 5" by linarith
  then show ?thesis
    by cases (simp_all add: train_blocks_def trainA_def trainB_def trainC_def
        trainD_def trainE_def trainF_def)
qed

section \<open>The example sessions, evaluated\<close>

lemmas op_defs = train_blocks_nth train_def train_onload_def fire_def remove_nth_def
  globalVideoState_def addExample_def js_set_def updateExampleCounts_def Let_def
  interval_def gotResult_def gotResult_onload_def gotResult_resume_def
  getClassExampleCount_def exemplars_def js_get_def js_or_def

lemma ex_ready_eq:
  "ex_ready =
     \<lparr>ioDevices = True, stage = Some ON,
      targets = [Some \<lparr>motionFrameNumber = 4, motionAmount = 3, motionDirection = 2\<rparr>],
      classifier = [], mobilenet = Some ex_infer,
      trainTypes = [JString ''A'', JString ''B'', JString ''C'',
                    JString ''D'', JString ''E'', JString ''F''],
      trainResult = JUndefined, trainConfidences = None, pending = []\<rparr>"
  by (simp add: ex_ready_def constructor_def knnInit_loaded_def create_def)

lemma ex_trained_eq: "ex_trained = ex_ready\<lparr>classifier := [(0, 7)]\<rparr>"
  by (simp add: ex_trained_def ex_ready_eq op_defs ex_infer_def)

lemma ex_published_eq:
  "ex_published =
     ex_ready\<lparr>classifier := [(0, 7)], trainResult := JString ''A'', trainConfidences := Some 1\<rparr>"
  by (simp add: ex_published_def ex_trained_eq ex_ready_eq op_defs ex_infer_def)

lemma ex_two_eq: "ex_two = ex_ready\<lparr>classifier := [(0, 7), (1, 8)]\<rparr>"
  by (simp add: ex_two_def ex_trained_eq ex_ready_eq op_defs ex_infer_def)

section \<open>Session restart\<close>

lemma project_run_start_fields:
  "classifier (project_run_start st) = classifier st"
  "trainTypes (project_run_start st) = trainTypes st"
  "trainResult (project_run_start st) = trainResult st"
  "trainConfidences (project_run_start st) = trainConfidences st"
  "pending (project_run_start st) = pending st"
  by (simp_all add: project_run_start_def reset_def)

text \<open>
  Claim C2, as stated, fails.  It says that a project run start clears every slot's exemplar
  sequence and the published result.  In the session \<open>ex_published\<close>, which holds one
  exemplar in the first slot and the published result \<^verbatim>\<open>"A"\<close>, the handler
  \<^verbatim>\<open>reset\<close> leaves both in place.
\<close>

theorem project_run_start_counterexample:
  "exemplars (classifier (project_run_start ex_published)) 0 \<noteq> [] \<and>
   getResult (project_run_start ex_published) \<noteq> JUndefined"
  by (simp add: project_run_start_fields getResult_def ex_published_eq ex_ready_eq exemplars_def)

text \<open>
  Claim C2, amended: on a project run start the handler \<^verbatim>\<open>reset\<close> (registered only
  when the runtime has I/O devices) zeroes the motion amount and direction of every target
  that has a motion state, and nothing else: the exemplar store, the display labels, the
  published result, the confidences and the pending callbacks are what they were, so
  exemplars and results persist across runs.
\<close>

theorem project_run_start_keeps_knn:
  "project_run_start st =
     (if ioDevices st
      then st\<lparr>targets :=
             map (map_option (\<lambda>m. m\<lparr>motionAmount := 0, motionDirection := 0\<rparr>)) (targets st)\<rparr>
      else st) \<and>
   classifier (project_run_start st) = classifier st \<and>
   trainTypes (project_run_start st) = trainTypes st \<and>
   getResult (project_run_start st) = getResult st \<and>
   trainConfidences (project_run_start st) = trainConfidences st \<and>
   pending (project_run_start st) = pending st \<and>
   Samples s (project_run_start st) = Samples s st"
  by (simp add: project_run_start_def reset_def getResult_def Samples_def)

theorem project_run_start_keeps_knn_witness:
  "project_run_start ex_published =
     ex_published\<lparr>targets :=
       [Some \<lparr>motionFrameNumber = 4, motionAmount = 0, motionDirection = 0\<rparr>]\<rparr> \<and>
   classifier (project_run_start ex_published) = [(0, 7)] \<and>
   getResult (project_run_start ex_published) = JString ''A'' \<and>
   Samples ''A'' (project_run_start ex_published) = 1"
  using project_run_start_keeps_knn [of ex_published "''A''"]
  by (simp add: ex_published_eq ex_ready_eq getResult_def Samples_def indexOf_def
      count_or_0_count exemplars_def)

section \<open>Resetting one slot\<close>

text \<open>
  Claim C4: \<^verbatim>\<open>resetTrain\<close> requires the label to resolve to a slot that holds at least
  one exemplar.  When the label resolves to no slot, or to a slot without exemplars, it
  raises the alert and returns the state unchanged, so no slot's count changes.  Otherwise
  it reports the counts and the only change is to the store, where exactly the resolved
  slot's exemplar sequence becomes empty and every other slot keeps its sequence.
\<close>

theorem resetTrain_guard:
  "(indexOf (trainTypes st) (JString s) < 0 \<or>
    exemplars (classifier st) (nat (indexOf (trainTypes st) (JString s))) = [] \<longrightarrow>
      resetTrain s st = (Alert AlertNoTrainingData, st)) \<and>
   (0 \<le> indexOf (trainTypes st) (JString s) \<and>
    exemplars (classifier st) (nat (indexOf (trainTypes st) (JString s))) \<noteq> [] \<longrightarrow>
      (\<exists>msg. fst (resetTrain s st) = Say msg) \<and>
      snd (resetTrain s st) =
        st\<lparr>classifier :=
             knn_clearClass (nat (indexOf (trainTypes st) (JString s))) (classifier st)\<rparr> \<and>
      (\<forall>j. exemplars (classifier (snd (resetTrain s st))) j =
           (if j = nat (indexOf (trainTypes st) (JString s)) then []
            else exemplars (classifier st) j)))"
  by (auto simp: resetTrain_def Let_def truthy_counts_get clearClass_def
      exemplars_clearClass updateExampleCounts_def)

theorem resetTrain_guard_witness:
  "resetTrain ''Z'' ex_two = (Alert AlertNoTrainingData, ex_two) \<and>
   resetTrain ''C'' ex_two = (Alert AlertNoTrainingData, ex_two) \<and>
   indexOf (trainTypes ex_two) (JString ''A'') = 0 \<and>
   exemplars (classifier ex_two) 0 = [7] \<and>
   snd (resetTrain ''A'' ex_two) = ex_two\<lparr>classifier := [(1, 8)]\<rparr> \<and>
   exemplars (classifier (snd (resetTrain ''A'' ex_two))) 0 = [] \<and>
   exemplars (classifier (snd (resetTrain ''A'' ex_two))) 1 = [8]"
  using resetTrain_guard [of ex_two "''Z''"] resetTrain_guard [of ex_two "''C''"]
    resetTrain_guard [of ex_two "''A''"]
  by (simp add: ex_two_eq ex_ready_eq indexOf_def exemplars_def knn_clearClass_def)

text \<open>
  Claim C9: for a label that is no slot's display label, \<^verbatim>\<open>indexOf\<close> gives \<open>-1\<close>, the
  count read at that index is \<^verbatim>\<open>undefined\<close>, and \<^verbatim>\<open>resetTrain\<close> leaves through
  the no-training-data alert with the state unchanged.  For no input at all does it leave
  through the class-not-found alert guarded by \<^verbatim>\<open>index < 0\<close>.
\<close>

theorem resetTrain_unknown_label:
  "(JString s \<notin> set (trainTypes st) \<longrightarrow>
      indexOf (trainTypes st) (JString s) = - 1 \<and>
      counts_get (getClassExampleCount (classifier st))
        (indexOf (trainTypes st) (JString s)) = JUndefined \<and>
      resetTrain s st = (Alert AlertNoTrainingData, st)) \<and>
   fst (resetTrain s st) \<noteq> Alert AlertClassNotFound"
  by (auto simp: resetTrain_def Let_def truthy_counts_get counts_get_count indexOf_notin
      indexOf_nonneg_iff indexOf_neg_iff updateExampleCounts_def)

theorem resetTrain_unknown_label_witness:
  "JString ''Z'' \<notin> set (trainTypes ex_two) \<and>
   indexOf (trainTypes ex_two) (JString ''Z'') = - 1 \<and>
   resetTrain ''Z'' ex_two = (Alert AlertNoTrainingData, ex_two)"
  using resetTrain_unknown_label [of "''Z''" ex_two]
  by (simp add: ex_two_eq ex_ready_eq)

section \<open>The published prediction\<close>

text \<open>
  Claim C8: \<^verbatim>\<open>whenGetResult\<close> is false while the published result is
  \<^verbatim>\<open>undefined\<close>, which it is from construction until a cycle publishes; otherwise it
  is true exactly when the label argument is equal to the published result.
\<close>

theorem whenGetResult_exact:
  "(getResult (st :: ('f, 'e, 'c) Scratch3Knn) = JUndefined \<longrightarrow> \<not> whenGetResult s st) \<and>
   (getResult st \<noteq> JUndefined \<longrightarrow> whenGetResult s st = (JString s = getResult st)) \<and>
   \<not> whenGetResult s (constructor io stg tgs :: ('f, 'e, 'c) Scratch3Knn)"
  by (simp add: whenGetResult_def getResult_def constructor_def)

theorem whenGetResult_exact_witness:
  "getResult ex_ready = JUndefined \<and> \<not> whenGetResult ''A'' ex_ready \<and>
   getResult ex_published \<noteq> JUndefined \<and>
   whenGetResult ''A'' ex_published \<and>
   \<not> whenGetResult ''B'' ex_published \<and>
   \<not> whenGetResult ''0'' (ex_ready\<lparr>trainResult := JNumber 0\<rparr>)"
  using whenGetResult_exact [of ex_ready "''A''" True "Some ON" "[]"]
    whenGetResult_exact [of ex_published "''A''" True "Some ON" "[]"]
    whenGetResult_exact [of ex_published "''B''" True "Some ON" "[]"]
    whenGetResult_exact [of "ex_ready\<lparr>trainResult := JNumber 0\<rparr>" "''0''" True "Some ON" "[]"]
  by (simp add: ex_published_eq ex_ready_eq getResult_def)

text \<open>
  Claim C10: when a sampling cycle publishes, the result is the display label at the
  predicted class index if that label is a non-empty string.  If that label is the empty
  string, or the index lies outside the label array, the result is the number \<open>0\<close>, and
  that is what \<^verbatim>\<open>getResult\<close> then returns.  In every case the result is either the
  number \<open>0\<close> or a truthy label.
\<close>

theorem gotResult_resume_publishes:
  "(js_get (trainTypes st) (classIndex res) = JString s \<and> s \<noteq> [] \<longrightarrow>
      getResult (gotResult_resume res st) = JString s) \<and>
   (js_get (trainTypes st) (classIndex res) = JString [] \<longrightarrow>
      getResult (gotResult_resume res st) = JNumber 0) \<and>
   (classIndex res < 0 \<or> int (length (trainTypes st)) \<le> classIndex res \<longrightarrow>
      getResult (gotResult_resume res st) = JNumber 0) \<and>
   (getResult (gotResult_resume res st) = JNumber 0 \<or>
    getResult (gotResult_resume res st) = js_get (trainTypes st) (classIndex res)
      \<and> truthy (js_get (trainTypes st) (classIndex res)))"
  by (auto simp: gotResult_resume_def getResult_def js_or_def js_get_def)

theorem gotResult_resume_publishes_witness:
  "getResult (gotResult_resume \<lparr>classIndex = 0, confidences = 1\<rparr> ex_two) = JString ''A'' \<and>
   getResult (gotResult_resume \<lparr>classIndex = 0, confidences = 1\<rparr>
      (ex_two\<lparr>trainTypes := js_set (trainTypes ex_two) 0 (JString [])\<rparr>)) = JNumber 0 \<and>
   getResult (gotResult_resume \<lparr>classIndex = 6, confidences = 1\<rparr> ex_two) = JNumber 0 \<and>
   getResult (gotResult_resume \<lparr>classIndex = - 1, confidences = 1\<rparr> ex_two) = JNumber 0"
  using gotResult_resume_publishes [of ex_two "\<lparr>classIndex = 0, confidences = 1\<rparr>" "''A''"]
    gotResult_resume_publishes
      [of "ex_two\<lparr>trainTypes := js_set (trainTypes ex_two) 0 (JString [])\<rparr>"
          "\<lparr>classIndex = 0, confidences = 1\<rparr>" "''A''"]
    gotResult_resume_publishes [of ex_two "\<lparr>classIndex = 6, confidences = 1\<rparr>" "''A''"]
    gotResult_resume_publishes [of ex_two "\<lparr>classIndex = - 1, confidences = 1\<rparr>" "''A''"]
  by (simp add: ex_two_eq ex_ready_eq js_get_def js_set_def)

section \<open>The sampling cycle\<close>

text \<open>
  Claim C6: when no slot holds an exemplar, or the frame source yields no frame, a call of
  \<^verbatim>\<open>gotResult\<close> returns at once with the state unchanged: no image load is
  registered, so neither extraction nor prediction runs, and the published result and the
  confidences are the previous ones (\<^verbatim>\<open>undefined\<close> when no cycle ever completed).
  With I/O devices present its promise is resolved.  The same holds of the timer callback.
\<close>

theorem gotResult_short_circuit:
  "(\<forall>k. exemplars (classifier st) k = []) \<or> frame = None \<Longrightarrow>
     snd (gotResult frame st) = st \<and>
     fst (gotResult frame st) \<noteq> Unsettled \<and>
     (ioDevices st \<longrightarrow> fst (gotResult frame st) = Resolved) \<and>
     interval frame st = st \<and>
     getResult (interval frame st) = getResult st \<and>
     trainConfidences (interval frame st) = trainConfidences st \<and>
     pending (interval frame st) = pending st"
  by (auto simp: gotResult_def interval_def keys_empty_iff no_exemplars_iff
      simp del: length_map length_0_conv split: option.splits)

theorem gotResult_short_circuit_witness:
  "(\<forall>k. exemplars (classifier ex_ready) k = []) \<and>
   gotResult (Some 9) ex_ready = (Resolved, ex_ready) \<and>
   interval (Some 9) ex_ready = ex_ready \<and>
   getResult (interval (Some 9) ex_ready) = JUndefined \<and>
   gotResult None ex_published = (Resolved, ex_published) \<and>
   getResult (interval None ex_published) = JString ''A'' \<and>
   trainConfidences (interval None ex_published) = Some 1"
  using gotResult_short_circuit [of ex_ready "Some 9"]
    gotResult_short_circuit [of ex_published None]
  by (simp add: ex_published_eq ex_ready_eq exemplars_def getResult_def prod_eq_iff)

lemma ex_busy_eq:
  "ex_busy = ex_ready\<lparr>classifier := [(0, 7), (1, 8)], pending := [SampleOnload 9]\<rparr>"
  by (simp add: ex_busy_def ex_two_eq ex_ready_eq op_defs)

lemma remove_nth_append_last: "remove_nth (length xs) (xs @ [x]) = xs"
  by (simp add: remove_nth_def)

lemma gotResult_starts:
  "ioDevices st \<Longrightarrow> classifier st \<noteq> [] \<Longrightarrow>
     gotResult (Some f) st = (Unsettled, st\<lparr>pending := pending st @ [SampleOnload f]\<rparr>)"
  by (simp add: gotResult_def keys_empty_iff del: length_map length_0_conv)

lemma fire_last_SampleOnload:
  "mobilenet st = Some infer \<Longrightarrow>
     fire (length (pending st)) r (st\<lparr>pending := pending st @ [SampleOnload f]\<rparr>) =
       st\<lparr>pending := pending st @ [AwaitPredict (infer f)]\<rparr>"
  by (simp add: fire_def remove_nth_append_last gotResult_onload_def)

lemma fire_last_AwaitPredict:
  "fire (length (pending st)) (Some res) (st\<lparr>pending := pending st @ [AwaitPredict x]\<rparr>) =
     st\<lparr>trainResult := js_or (js_get (trainTypes st) (classIndex res)) (JNumber 0),
        trainConfidences := Some (confidences res)\<rparr>"
  by (simp add: fire_def remove_nth_append_last gotResult_resume_def)

text \<open>
  Claim C3, as stated, fails.  It says that the periodic tick is a no-op whenever a sample
  is already in flight.  In the session \<open>ex_busy\<close> the video state is \<^verbatim>\<open>'on'\<close> and one
  cycle is in flight, yet a tick with a frame changes the state: it starts a second cycle.
\<close>

theorem interval_counterexample:
  "globalVideoState ex_busy = ON \<and> 0 < in_flight ex_busy \<and>
   interval (Some 3) ex_busy \<noteq> ex_busy \<and>
   in_flight (interval (Some 3) ex_busy) = 2"
  by (simp add: ex_busy_eq ex_ready_eq in_flight_def op_defs)

text \<open>
  Claim C3, amended: the periodic tick is a no-op when the video state is \<^verbatim>\<open>'off'\<close>.
  When the video state is \<^verbatim>\<open>'on'\<close>, a frame is available and some slot holds an
  exemplar, the tick starts a cycle whether or not another one is in flight: it registers the
  image load for the frame; with the embedding model loaded, that callback extracts the
  embedding and calls the classifier; and when the prediction resolves, the published result
  and the confidences are replaced together.
\<close>

theorem interval_cycle:
  "(globalVideoState st = OFF \<longrightarrow> interval frame st = st) \<and>
   (globalVideoState st = ON \<and> ioDevices st \<and> (\<exists>k. exemplars (classifier st) k \<noteq> []) \<and>
    frame = Some f \<and> mobilenet st = Some infer \<longrightarrow>
      interval frame st = st\<lparr>pending := pending st @ [SampleOnload f]\<rparr> \<and>
      fire (length (pending st)) r (interval frame st) =
        st\<lparr>pending := pending st @ [AwaitPredict (infer f)]\<rparr> \<and>
      fire (length (pending st)) (Some res) (fire (length (pending st)) r (interval frame st)) =
        st\<lparr>trainResult := js_or (js_get (trainTypes st) (classIndex res)) (JNumber 0),
           trainConfidences := Some (confidences res)\<rparr>)"
proof (rule conjI; rule impI)
  assume "globalVideoState st = OFF"
  then show "interval frame st = st" by (simp add: interval_def)
next
  assume a: "globalVideoState st = ON \<and> ioDevices st \<and>
    (\<exists>k. exemplars (classifier st) k \<noteq> []) \<and> frame = Some f \<and> mobilenet st = Some infer"
  then have on: "globalVideoState st = ON" and io: "ioDevices st"
    and fr: "frame = Some f" and mn: "mobilenet st = Some infer"
    by simp_all
  from a have ne: "classifier st \<noteq> []"
    using no_exemplars_iff [of "classifier st"] by auto
  have i: "interval frame st = st\<lparr>pending := pending st @ [SampleOnload f]\<rparr>"
    unfolding fr using on io ne by (simp add: interval_def gotResult_starts)
  have ii: "fire (length (pending st)) r (interval frame st) =
      st\<lparr>pending := pending st @ [AwaitPredict (infer f)]\<rparr>"
    unfolding i using mn by (rule fire_last_SampleOnload)
  have iii: "fire (length (pending st)) (Some res)
        (fire (length (pending st)) r (interval frame st)) =
      st\<lparr>trainResult := js_or (js_get (trainTypes st) (classIndex res)) (JNumber 0),
         trainConfidences := Some (confidences res)\<rparr>"
    unfolding ii by (rule fire_last_AwaitPredict)
  from i ii iii show
    "interval frame st = st\<lparr>pending := pending st @ [SampleOnload f]\<rparr> \<and>
     fire (length (pending st)) r (interval frame st) =
       st\<lparr>pending := pending st @ [AwaitPredict (infer f)]\<rparr> \<and>
     fire (length (pending st)) (Some res) (fire (length (pending st)) r (interval frame st)) =
       st\<lparr>trainResult := js_or (js_get (trainTypes st) (classIndex res)) (JNumber 0),
          trainConfidences := Some (confidences res)\<rparr>"
    by blast
qed

theorem interval_cycle_witness:
  "globalVideoState (ex_busy\<lparr>stage := Some OFF\<rparr>) = OFF \<and>
   interval (Some 3) (ex_busy\<lparr>stage := Some OFF\<rparr>) = ex_busy\<lparr>stage := Some OFF\<rparr> \<and>
   globalVideoState ex_busy = ON \<and> ioDevices ex_busy \<and>
   exemplars (classifier ex_busy) 1 \<noteq> [] \<and> mobilenet ex_busy = Some ex_infer \<and>
   interval (Some 3) ex_busy = ex_busy\<lparr>pending := [SampleOnload 9, SampleOnload 3]\<rparr> \<and>
   fire 1 None (interval (Some 3) ex_busy) =
     ex_busy\<lparr>pending := [SampleOnload 9, AwaitPredict 3]\<rparr> \<and>
   fire 1 (Some \<lparr>classIndex = 1, confidences = 5\<rparr>) (fire 1 None (interval (Some 3) ex_busy)) =
     ex_busy\<lparr>trainResult := JString ''B'', trainConfidences := Some 5\<rparr>"
proof -
  have h: "globalVideoState ex_busy = ON \<and> ioDevices ex_busy \<and>
      exemplars (classifier ex_busy) 1 \<noteq> [] \<and> mobilenet ex_busy = Some ex_infer"
    by (simp add: ex_busy_eq ex_ready_eq globalVideoState_def exemplars_def)
  then have e: "\<exists>k. exemplars (classifier ex_busy) k \<noteq> []" by blast
  have off: "globalVideoState (ex_busy\<lparr>stage := Some OFF\<rparr>) = OFF"
    by (simp add: globalVideoState_def)
  have len: "length (pending ex_busy) = 1"
    by (simp add: ex_busy_eq ex_ready_eq)
  have a: "interval (Some 3) (ex_busy\<lparr>stage := Some OFF\<rparr>) = ex_busy\<lparr>stage := Some OFF\<rparr>"
    using off interval_cycle [of "ex_busy\<lparr>stage := Some OFF\<rparr>" "Some 3"] by blast
  have b: "interval (Some 3) ex_busy = ex_busy\<lparr>pending := pending ex_busy @ [SampleOnload 3]\<rparr> \<and>
      fire 1 None (interval (Some 3) ex_busy) =
        ex_busy\<lparr>pending := pending ex_busy @ [AwaitPredict (ex_infer 3)]\<rparr> \<and>
      fire 1 (Some \<lparr>classIndex = 1, confidences = 5\<rparr>)
          (fire 1 None (interval (Some 3) ex_busy)) =
        ex_busy\<lparr>trainResult := js_or (js_get (trainTypes ex_busy) 1) (JNumber 0),
                trainConfidences := Some 5\<rparr>"
    using h e
      interval_cycle [of ex_busy "Some 3" 3 ex_infer None "\<lparr>classIndex = 1, confidences = 5\<rparr>",
        unfolded len prediction.simps]
    by blast
  have c: "pending ex_busy = [SampleOnload 9]" "ex_infer 3 = 3"
    "js_or (js_get (trainTypes ex_busy) 1) (JNumber 0) = JString ''B''"
    by (simp_all add: ex_busy_eq ex_ready_eq ex_infer_def js_or_def js_get_def)
  from h off a b show ?thesis unfolding c append_Cons append_Nil by blast
qed

lemma fire_first_SampleOnload:
  "mobilenet st = Some infer \<Longrightarrow>
     fire (length ps) r (st\<lparr>pending := ps @ SampleOnload f # qs\<rparr>) =
       st\<lparr>pending := ps @ qs @ [AwaitPredict (infer f)]\<rparr>"
  by (simp add: fire_def remove_nth_def gotResult_onload_def nth_append)

lemma fire_first_AwaitPredict:
  "fire (length ps) (Some res) (st\<lparr>pending := ps @ AwaitPredict x # qs\<rparr>) =
     st\<lparr>pending := ps @ qs,
        trainResult := js_or (js_get (trainTypes st) (classIndex res)) (JNumber 0),
        trainConfidences := Some (confidences res)\<rparr>"
  by (simp add: fire_def remove_nth_def gotResult_resume_def nth_append)

text \<open>
  Claim C1, as stated, fails.  It says that of two ticks, the second arriving before the
  first cycle resolves, only one cycle executes and the second tick changes nothing.  From
  the session \<open>ex_two\<close>, two ticks in a row leave two cycles in flight and the second tick
  changes the state.  Both cycles execute and publish: when the first resolves the result
  is \<^verbatim>\<open>"A"\<close> with the first prediction's confidences, and when the second resolves
  the confidences are replaced by the second prediction's.
\<close>

theorem interval_overlap_counterexample:
  "in_flight (run [Interval (Some 1), Interval (Some 2)] ex_two) = 2 \<and>
   run [Interval (Some 1), Interval (Some 2)] ex_two \<noteq> run [Interval (Some 1)] ex_two \<and>
   getResult (run [Interval (Some 1), Interval (Some 2), Fire 0 None, Fire 0 None,
                   Fire 0 (Some \<lparr>classIndex = 0, confidences = 4\<rparr>)] ex_two) = JString ''A'' \<and>
   trainConfidences (run [Interval (Some 1), Interval (Some 2), Fire 0 None, Fire 0 None,
                   Fire 0 (Some \<lparr>classIndex = 0, confidences = 4\<rparr>)] ex_two) = Some 4 \<and>
   trainConfidences (run [Interval (Some 1), Interval (Some 2), Fire 0 None, Fire 0 None,
                   Fire 0 (Some \<lparr>classIndex = 0, confidences = 4\<rparr>),
                   Fire 0 (Some \<lparr>classIndex = 0, confidences = 5\<rparr>)] ex_two) = Some 5"
  by (simp add: ex_two_eq ex_ready_eq in_flight_def op_defs getResult_def)

text \<open>
  Claim C1, amended: the extension keeps no in-flight flag.  Every tick that arrives while
  the video state is \<^verbatim>\<open>'on'\<close>, some slot holds an exemplar and a frame is available starts
  a sampling cycle of its own, however many cycles are still unresolved: the number in flight
  grows by one with each such tick, so two overlapping ticks give two cycles and the second
  tick does change the state.  No tick is dropped or deferred for being in flight.  With the
  embedding model loaded, both cycles execute: once their images have loaded, the first
  prediction to resolve is published, and the second, when it resolves, is published over
  it.
\<close>

theorem interval_unguarded:
  "globalVideoState st = ON \<and> ioDevices st \<and> (\<exists>k. exemplars (classifier st) k \<noteq> []) \<Longrightarrow>
     interval (Some f) st = st\<lparr>pending := pending st @ [SampleOnload f]\<rparr> \<and>
     in_flight (interval (Some f) st) = Suc (in_flight st) \<and>
     in_flight (interval (Some g) (interval (Some f) st)) = Suc (Suc (in_flight st)) \<and>
     interval (Some g) (interval (Some f) st) \<noteq> interval (Some f) st \<and>
     (mobilenet st = Some infer \<longrightarrow>
        fire (length (pending st)) (Some r1)
          (fire (length (pending st)) q
            (fire (length (pending st)) p (interval (Some g) (interval (Some f) st)))) =
          st\<lparr>pending := pending st @ [AwaitPredict (infer g)],
             trainResult := js_or (js_get (trainTypes st) (classIndex r1)) (JNumber 0),
             trainConfidences := Some (confidences r1)\<rparr> \<and>
        fire (length (pending st)) (Some r2)
          (fire (length (pending st)) (Some r1)
            (fire (length (pending st)) q
              (fire (length (pending st)) p (interval (Some g) (interval (Some f) st))))) =
          st\<lparr>trainResult := js_or (js_get (trainTypes st) (classIndex r2)) (JNumber 0),
             trainConfidences := Some (confidences r2)\<rparr>)"
proof -
  assume a: "globalVideoState st = ON \<and> ioDevices st \<and> (\<exists>k. exemplars (classifier st) k \<noteq> [])"
  then have ne: "classifier st \<noteq> []"
    using no_exemplars_iff [of "classifier st"] by auto
  have i: "interval (Some f) st = st\<lparr>pending := pending st @ [SampleOnload f]\<rparr>"
    using a ne by (simp add: interval_def gotResult_starts)
  have ii: "interval (Some g) (st\<lparr>pending := pending st @ [SampleOnload f]\<rparr>) =
      st\<lparr>pending := pending st @ [SampleOnload f, SampleOnload g]\<rparr>"
    using a ne by (simp add: interval_def gotResult_starts globalVideoState_def)
  have "pending (st\<lparr>pending := pending st @ [SampleOnload f, SampleOnload g]\<rparr>) \<noteq>
      pending (st\<lparr>pending := pending st @ [SampleOnload f]\<rparr>)"
    by simp
  then have ne2: "st\<lparr>pending := pending st @ [SampleOnload f, SampleOnload g]\<rparr> \<noteq>
      st\<lparr>pending := pending st @ [SampleOnload f]\<rparr>"
    by metis
  have pub: "mobilenet st = Some infer \<longrightarrow>
        fire (length (pending st)) (Some r1)
          (fire (length (pending st)) q
            (fire (length (pending st)) p
              (st\<lparr>pending := pending st @ [SampleOnload f, SampleOnload g]\<rparr>))) =
          st\<lparr>pending := pending st @ [AwaitPredict (infer g)],
             trainResult := js_or (js_get (trainTypes st) (classIndex r1)) (JNumber 0),
             trainConfidences := Some (confidences r1)\<rparr> \<and>
        fire (length (pending st)) (Some r2)
          (fire (length (pending st)) (Some r1)
            (fire (length (pending st)) q
              (fire (length (pending st)) p
                (st\<lparr>pending := pending st @ [SampleOnload f, SampleOnload g]\<rparr>)))) =
          st\<lparr>trainResult := js_or (js_get (trainTypes st) (classIndex r2)) (JNumber 0),
             trainConfidences := Some (confidences r2)\<rparr>"
  proof
    assume mn: "mobilenet st = Some infer"
    have s1: "fire (length (pending st)) p
        (st\<lparr>pending := pending st @ [SampleOnload f, SampleOnload g]\<rparr>) =
        st\<lparr>pending := pending st @ [SampleOnload g, AwaitPredict (infer f)]\<rparr>"
      using fire_first_SampleOnload [OF mn, where ps = "pending st" and r = p and f = f
          and qs = "[SampleOnload g]"] by simp
    have s2: "fire (length (pending st)) q
        (st\<lparr>pending := pending st @ [SampleOnload g, AwaitPredict (infer f)]\<rparr>) =
        st\<lparr>pending := pending st @ [AwaitPredict (infer f), AwaitPredict (infer g)]\<rparr>"
      using fire_first_SampleOnload [OF mn, where ps = "pending st" and r = q and f = g
          and qs = "[AwaitPredict (infer f)]"]
      by simp
    have s3: "fire (length (pending st)) (Some r1)
        (st\<lparr>pending := pending st @ [AwaitPredict (infer f), AwaitPredict (infer g)]\<rparr>) =
        st\<lparr>pending := pending st @ [AwaitPredict (infer g)],
           trainResult := js_or (js_get (trainTypes st) (classIndex r1)) (JNumber 0),
           trainConfidences := Some (confidences r1)\<rparr>"
      using fire_first_AwaitPredict [where ps = "pending st" and res = r1 and st = st
          and x = "infer f" and qs = "[AwaitPredict (infer g)]"]
      by simp
    have s4: "fire (length (pending st)) (Some r2)
        (st\<lparr>pending := pending st @ [AwaitPredict (infer g)],
           trainResult := js_or (js_get (trainTypes st) (classIndex r1)) (JNumber 0),
           trainConfidences := Some (confidences r1)\<rparr>) =
        st\<lparr>trainResult := js_or (js_get (trainTypes st) (classIndex r2)) (JNumber 0),
           trainConfidences := Some (confidences r2)\<rparr>"
      by (simp add: fire_def remove_nth_def gotResult_resume_def)
    show "fire (length (pending st)) (Some r1)
          (fire (length (pending st)) q
            (fire (length (pending st)) p
              (st\<lparr>pending := pending st @ [SampleOnload f, SampleOnload g]\<rparr>))) =
          st\<lparr>pending := pending st @ [AwaitPredict (infer g)],
             trainResult := js_or (js_get (trainTypes st) (classIndex r1)) (JNumber 0),
             trainConfidences := Some (confidences r1)\<rparr> \<and>
        fire (length (pending st)) (Some r2)
          (fire (length (pending st)) (Some r1)
            (fire (length (pending st)) q
              (fire (length (pending st)) p
                (st\<lparr>pending := pending st @ [SampleOnload f, SampleOnload g]\<rparr>)))) =
          st\<lparr>trainResult := js_or (js_get (trainTypes st) (classIndex r2)) (JNumber 0),
             trainConfidences := Some (confidences r2)\<rparr>"
      unfolding s1 s2 s3 s4 by simp
  qed
  have c2: "in_flight (interval (Some f) st) = Suc (in_flight st)"
    unfolding i by (simp add: in_flight_def)
  have c3: "in_flight (interval (Some g) (interval (Some f) st)) = Suc (Suc (in_flight st))"
    unfolding i ii by (simp add: in_flight_def)
  have c4: "interval (Some g) (interval (Some f) st) \<noteq> interval (Some f) st"
    unfolding i ii by (rule ne2)
  have c5: "mobilenet st = Some infer \<longrightarrow>
        fire (length (pending st)) (Some r1)
          (fire (length (pending st)) q
            (fire (length (pending st)) p (interval (Some g) (interval (Some f) st)))) =
          st\<lparr>pending := pending st @ [AwaitPredict (infer g)],
             trainResult := js_or (js_get (trainTypes st) (classIndex r1)) (JNumber 0),
             trainConfidences := Some (confidences r1)\<rparr> \<and>
        fire (length (pending st)) (Some r2)
          (fire (length (pending st)) (Some r1)
            (fire (length (pending st)) q
              (fire (length (pending st)) p (interval (Some g) (interval (Some f) st))))) =
          st\<lparr>trainResult := js_or (js_get (trainTypes st) (classIndex r2)) (JNumber 0),
             trainConfidences := Some (confidences r2)\<rparr>"
    unfolding i ii by (rule pub)
  from i c2 c3 c4 c5 show ?thesis by blast
qed

theorem interval_unguarded_witness:
  "globalVideoState ex_busy = ON \<and> ioDevices ex_busy \<and>
   exemplars (classifier ex_busy) 0 \<noteq> [] \<and> mobilenet ex_busy = Some ex_infer \<and>
   in_flight ex_busy = 1 \<and>
   in_flight (interval (Some 3) ex_busy) = 2 \<and>
   in_flight (interval (Some 4) (interval (Some 3) ex_busy)) = 3 \<and>
   getResult (fire 1 (Some \<lparr>classIndex = 0, confidences = 4\<rparr>) (fire 1 None (fire 1 None
      (interval (Some 4) (interval (Some 3) ex_busy))))) = JString ''A'' \<and>
   trainConfidences (fire 1 (Some \<lparr>classIndex = 0, confidences = 4\<rparr>) (fire 1 None
      (fire 1 None (interval (Some 4) (interval (Some 3) ex_busy))))) = Some 4 \<and>
   getResult (fire 1 (Some \<lparr>classIndex = 0, confidences = 5\<rparr>)
      (fire 1 (Some \<lparr>classIndex = 0, confidences = 4\<rparr>) (fire 1 None (fire 1 None
      (interval (Some 4) (interval (Some 3) ex_busy)))))) = JString ''A'' \<and>
   trainConfidences (fire 1 (Some \<lparr>classIndex = 0, confidences = 5\<rparr>)
      (fire 1 (Some \<lparr>classIndex = 0, confidences = 4\<rparr>) (fire 1 None (fire 1 None
      (interval (Some 4) (interval (Some 3) ex_busy)))))) = Some 5"
proof -
  have h: "globalVideoState ex_busy = ON \<and> ioDevices ex_busy \<and>
      exemplars (classifier ex_busy) 0 \<noteq> []"
    by (simp add: ex_busy_eq ex_ready_eq globalVideoState_def exemplars_def)
  then have e: "globalVideoState ex_busy = ON \<and> ioDevices ex_busy \<and>
      (\<exists>k. exemplars (classifier ex_busy) k \<noteq> [])" by blast
  have n: "in_flight ex_busy = 1" "length (pending ex_busy) = 1"
    "mobilenet ex_busy = Some ex_infer"
    by (simp_all add: ex_busy_eq ex_ready_eq in_flight_def)
  note t = interval_unguarded [OF e, of 3 4 ex_infer "\<lparr>classIndex = 0, confidences = 4\<rparr>" None None
      "\<lparr>classIndex = 0, confidences = 5\<rparr>", THEN conjunct2, unfolded n(2)]
  have c: "in_flight (interval (Some 3) ex_busy) = 2 \<and>
      in_flight (interval (Some 4) (interval (Some 3) ex_busy)) = 3"
    using t n(1) by simp
  have p: "fire 1 (Some \<lparr>classIndex = 0, confidences = 4\<rparr>) (fire 1 None (fire 1 None
        (interval (Some 4) (interval (Some 3) ex_busy)))) =
      ex_busy\<lparr>pending := pending ex_busy @ [AwaitPredict (ex_infer 4)],
        trainResult := js_or (js_get (trainTypes ex_busy)
          (classIndex \<lparr>classIndex = 0, confidences = 4::nat\<rparr>)) (JNumber 0),
        trainConfidences := Some (confidences \<lparr>classIndex = 0, confidences = 4::nat\<rparr>)\<rparr>"
    using t n(3) by blast
  have q: "fire 1 (Some \<lparr>classIndex = 0, confidences = 5\<rparr>)
        (fire 1 (Some \<lparr>classIndex = 0, confidences = 4\<rparr>) (fire 1 None (fire 1 None
        (interval (Some 4) (interval (Some 3) ex_busy))))) =
      ex_busy\<lparr>trainResult := js_or (js_get (trainTypes ex_busy)
          (classIndex \<lparr>classIndex = 0, confidences = 5::nat\<rparr>)) (JNumber 0),
        trainConfidences := Some (confidences \<lparr>classIndex = 0, confidences = 5::nat\<rparr>)\<rparr>"
    using t n(3) by blast
  have r: "getResult (fire 1 (Some \<lparr>classIndex = 0, confidences = 4\<rparr>) (fire 1 None (fire 1 None
      (interval (Some 4) (interval (Some 3) ex_busy))))) = JString ''A''"
    unfolding p by (simp add: getResult_def ex_busy_eq ex_ready_eq js_get_def js_or_def)
  have s: "getResult (fire 1 (Some \<lparr>classIndex = 0, confidences = 5\<rparr>)
      (fire 1 (Some \<lparr>classIndex = 0, confidences = 4\<rparr>) (fire 1 None (fire 1 None
      (interval (Some 4) (interval (Some 3) ex_busy)))))) = JString ''A''"
    unfolding q by (simp add: getResult_def ex_busy_eq ex_ready_eq js_get_def js_or_def)
  have r': "trainConfidences (fire 1 (Some \<lparr>classIndex = 0, confidences = 4\<rparr>) (fire 1 None
      (fire 1 None (interval (Some 4) (interval (Some 3) ex_busy))))) = Some 4"
    unfolding p by simp
  have s': "trainConfidences (fire 1 (Some \<lparr>classIndex = 0, confidences = 5\<rparr>)
      (fire 1 (Some \<lparr>classIndex = 0, confidences = 4\<rparr>) (fire 1 None (fire 1 None
      (interval (Some 4) (interval (Some 3) ex_busy)))))) = Some 5"
    unfolding q by simp
  from h n c r s r' s' show ?thesis by simp
qed

section \<open>Training and counting\<close>

lemma js_get_js_set_same: "js_get (js_set xs k v) (int k) = v"
  by (simp add: js_get_def js_set_def nth_append)

lemma js_get_js_set_below: "m < k \<Longrightarrow> js_get (js_set xs k v) (int m) = js_get xs (int m)"
  by (auto simp: js_get_def js_set_def nth_append)

lemma length_js_set: "k < length (js_set xs k v)"
  by (simp add: js_set_def)

lemma indexOf_eq_first:
  assumes "n < length xs" "xs ! n = v" "\<forall>m < n. xs ! m \<noteq> v"
  shows "indexOf xs v = int n"
proof -
  from assms have "v \<in> set xs" by (auto simp: in_set_conv_nth)
  from indexOf_from_first [OF this, of 0] obtain n' where
    n': "n' < length xs" "indexOf xs v = int n'" "xs ! n' = v" "\<forall>m < n'. xs ! m \<noteq> v"
    by (auto simp: indexOf_def)
  have "n' = n"
  proof (rule ccontr)
    assume "n' \<noteq> n"
    then consider "n' < n" | "n < n'" by linarith
    then show False using assms n' by cases auto
  qed
  with n' show ?thesis by simp
qed

lemma indexOf_js_set:
  assumes "\<forall>m < k. js_get xs (int m) \<noteq> v"
  shows "indexOf (js_set xs k v) v = int k"
proof (rule indexOf_eq_first)
  show "k < length (js_set xs k v)" by (rule length_js_set)
  show "js_set xs k v ! k = v"
    using js_get_js_set_same [of xs k v] length_js_set [of k xs v] by (simp add: js_get_def)
  show "\<forall>m < k. js_set xs k v ! m \<noteq> v"
  proof (intro allI impI)
    fix m assume m: "m < k"
    then have "m < length (js_set xs k v)" using length_js_set [of k xs v] by simp
    then have "js_set xs k v ! m = js_get (js_set xs k v) (int m)" by (simp add: js_get_def)
    also have "\<dots> = js_get xs (int m)" using m by (rule js_get_js_set_below)
    finally show "js_set xs k v ! m \<noteq> v" using assms m by simp
  qed
qed

lemma Samples_eq:
  "Samples s st =
     (if JString s \<in> set (trainTypes st)
      then length (exemplars (classifier st) (nat (indexOf (trainTypes st) (JString s))))
      else 0)"
  by (simp add: Samples_def count_or_0_count indexOf_nonneg_iff)

lemma train_pending_only:
  "classifier (snd (train k s frame st)) = classifier st"
  "trainTypes (snd (train k s frame st)) = trainTypes st"
  by (simp_all add: train_def split: option.splits)

text \<open>
  Every event changes the exemplar count of a slot as the trace observers say: a reset that
  clears the slot makes it zero, a completed training call to the slot adds one, and every
  other event leaves it alone.
\<close>

lemma step_count:
  "length (exemplars (classifier (step ev st)) k) =
     (if reset_clears k ev st then 0
      else if train_completes k ev st then Suc (length (exemplars (classifier st) k))
      else length (exemplars (classifier st) k))"
proof (cases ev)
  case (Interval frame)
  then show ?thesis
    by (simp add: interval_def gotResult_def split: option.splits)
next
  case (TrainBlock j s frame)
  then show ?thesis
    by (simp add: train_blocks_nth train_pending_only)
next
  case (ResetTrainBlock s)
  then show ?thesis
    by (auto simp: resetTrain_def Let_def truthy_counts_get clearClass_def exemplars_clearClass)
next
  case (VideoToggleBlock v)
  then show ?thesis
    by (simp add: videoToggle_def set_globalVideoState_def Let_def split: option.splits)
next
  case ProjectRunStart
  then show ?thesis by (simp add: project_run_start_fields)
next
  case (MobilenetLoaded m)
  then show ?thesis by (simp add: knnInit_loaded_def)
next
  case (Fire i res)
  show ?thesis
  proof (cases "i < length (pending st)")
    case False
    with Fire show ?thesis by (simp add: fire_def)
  next
    case True
    with Fire show ?thesis
      by (cases "pending st ! i")
        (auto simp: fire_def Let_def train_onload_def gotResult_onload_def gotResult_resume_def
          exemplars_addExample split: option.splits)
  qed
qed

lemma run_count:
  "length (exemplars (classifier (run evs st)) k) =
     trained_since_reset k evs st (length (exemplars (classifier st) k))"
proof (induction evs arbitrary: st)
  case Nil
  show ?case by simp
next
  case (Cons ev evs)
  show ?case using Cons.IH [of "step ev st"] by (simp add: step_count)
qed

lemma ex_off_eq: "ex_off = ex_ready\<lparr>stage := Some OFF\<rparr>"
  by (simp add: ex_off_def videoToggle_def set_globalVideoState_def ex_ready_eq)

lemma ex_session_run:
  "run ex_session ex_ready =
     ex_ready\<lparr>classifier := [(0, 9)],
       trainTypes := [JString ''X'', JString ''B'', JString ''C'',
                      JString ''D'', JString ''E'', JString ''F'']\<rparr>"
  by (simp add: ex_session_def ex_ready_eq op_defs ex_infer_def resetTrain_def indexOf_def
      counts_get_def clearClass_def knn_clearClass_def)

lemma ex_session_count: "trained_since_reset 0 ex_session ex_ready 0 = 1"
  by (simp add: ex_session_def ex_ready_eq op_defs ex_infer_def resetTrain_def indexOf_def
      counts_get_def clearClass_def knn_clearClass_def)

text \<open>
  Claim C5, as stated, fails.  It says that in an enabled session a training block appends
  the frame's embedding to its slot and renames the slot.  In the session \<open>ex_loading\<close>
  the video is on but the embedding model has not loaded: the first training block
  registers its image load, and when that callback runs, it raises before anything is
  added, so the slot stays empty and keeps its label \<^verbatim>\<open>"A"\<close>.  In the ready session,
  when the camera returns no frame, the block raises at once and changes nothing.
\<close>

theorem train_counterexample:
  "globalVideoState ex_loading \<noteq> OFF \<and>
   exemplars (classifier (fire 0 None (snd (trainA ''G'' (Some 7) ex_loading)))) 0 = [] \<and>
   js_get (trainTypes (fire 0 None (snd (trainA ''G'' (Some 7) ex_loading)))) 0 = JString ''A'' \<and>
   globalVideoState ex_ready \<noteq> OFF \<and>
   trainA ''G'' None ex_ready = (TypeError, ex_ready)"
  by (simp add: ex_loading_def constructor_def create_def ex_ready_eq trainA_def train_def
      globalVideoState_def fire_def remove_nth_def train_onload_def exemplars_def js_get_def)

text \<open>
  Claim C5, amended: a training block requires the video state not to be \<^verbatim>\<open>'off'\<close>.
  When it is off, the block raises the open-the-camera alert and returns the state
  unchanged, so no exemplar count and no label changes.  When it is not off, the runtime has
  its I/O devices and the camera returns a frame, the block captures the frame and registers
  its image load; and when that callback runs with the embedding model loaded, it extracts
  the frame's embedding, appends it to the exemplar sequence of the block's slot and of no
  other, renames the slot's label to the given label, and reports the counts.  This holds
  for each of the six blocks.
\<close>

theorem train_guard:
  "k < 6 \<Longrightarrow>
   (globalVideoState st = OFF \<longrightarrow>
      (train_blocks ! k) s frame st = (Alert AlertOpenCamera, st)) \<and>
   (globalVideoState st \<noteq> OFF \<and> ioDevices st \<and> frame = Some f \<longrightarrow>
      (train_blocks ! k) s frame st =
        (Quiet, st\<lparr>pending := pending st @ [TrainOnload k s f]\<rparr>)) \<and>
   (mobilenet st = Some infer \<longrightarrow>
      (\<exists>msg. fst (train_onload k s f st) = Say msg) \<and>
      snd (train_onload k s f st) =
        st\<lparr>classifier := addExample (infer f) k (classifier st),
           trainTypes := js_set (trainTypes st) k (JString s)\<rparr> \<and>
      (\<forall>j. exemplars (classifier (snd (train_onload k s f st))) j =
           (if j = k then exemplars (classifier st) k @ [infer f]
            else exemplars (classifier st) j)) \<and>
      js_get (trainTypes (snd (train_onload k s f st))) (int k) = JString s) \<and>
   (globalVideoState st \<noteq> OFF \<and> ioDevices st \<and> frame = Some f \<and> mobilenet st = Some infer \<longrightarrow>
      fire (length (pending st)) r (snd ((train_blocks ! k) s frame st)) =
        snd (train_onload k s f st))"
  by (auto simp: train_blocks_nth train_def train_onload_def Let_def updateExampleCounts_def
      exemplars_addExample js_get_js_set_same fire_def remove_nth_append_last)

theorem train_guard_witness:
  "globalVideoState ex_off = OFF \<and>
   trainA ''A'' (Some 7) ex_off = (Alert AlertOpenCamera, ex_off) \<and>
   Samples ''A'' (snd (trainA ''A'' (Some 7) ex_off)) = 0 \<and>
   globalVideoState ex_ready \<noteq> OFF \<and> ioDevices ex_ready \<and> mobilenet ex_ready = Some ex_infer \<and>
   trainA ''G'' (Some 7) ex_ready = (Quiet, ex_ready\<lparr>pending := [TrainOnload 0 ''G'' 7]\<rparr>) \<and>
   exemplars (classifier (fire 0 None (snd (trainA ''G'' (Some 7) ex_ready)))) 0 = [7] \<and>
   js_get (trainTypes (fire 0 None (snd (trainA ''G'' (Some 7) ex_ready)))) 0 = JString ''G''"
proof -
  have h: "globalVideoState ex_off = OFF" "globalVideoState ex_ready \<noteq> OFF"
    "ioDevices ex_ready" "mobilenet ex_ready = Some ex_infer" "pending ex_ready = []"
    "exemplars (classifier ex_ready) 0 = []" "ex_infer 7 = 7"
    "train_blocks ! 0 = (trainA :: string \<Rightarrow> nat option \<Rightarrow> (nat, nat, nat) Scratch3Knn \<Rightarrow> _)"
    "Samples ''A'' ex_off = 0"
    by (simp_all add: ex_off_eq ex_ready_eq globalVideoState_def exemplars_def ex_infer_def
        train_blocks_def Samples_def indexOf_def count_or_0_def counts_get_def
        getClassExampleCount_def js_or_def)
  have k: "(0::nat) < 6" by simp
  note off = train_guard [OF k, of ex_off "''A''" "Some 7" 7 ex_infer None, unfolded h(8)]
  note on = train_guard [OF k, of ex_ready "''G''" "Some 7" 7 ex_infer None, unfolded h(8)]
  have a: "trainA ''A'' (Some 7) ex_off = (Alert AlertOpenCamera, ex_off)"
    using h(1) off by blast
  have b: "trainA ''G'' (Some 7) ex_ready =
      (Quiet, ex_ready\<lparr>pending := pending ex_ready @ [TrainOnload 0 ''G'' 7]\<rparr>)"
    using h(2,3) on by blast
  have c: "fire 0 None (snd (trainA ''G'' (Some 7) ex_ready)) =
      snd (train_onload 0 ''G'' 7 ex_ready)"
    using h(2,3,4) on [unfolded h(5) list.size] by blast
  have d: "exemplars (classifier (snd (train_onload 0 ''G'' 7 ex_ready))) 0 =
        exemplars (classifier ex_ready) 0 @ [ex_infer 7] \<and>
      js_get (trainTypes (snd (train_onload 0 ''G'' 7 ex_ready))) (int 0) = JString ''G''"
    using h(4) on by metis
  from h a b d show ?thesis unfolding c by simp
qed

text \<open>
  Claim C7, as stated, fails.  It says that after training calls to one slot the count
  reported for the label equals the number of successful calls to that slot.  From the
  ready session, one completed call of the second training block with the label
  \<^verbatim>\<open>"A"\<close> is one successful call to the second slot, but the label resolves to the first
  slot, which still carries \<^verbatim>\<open>"A"\<close>, and \<^verbatim>\<open>Samples\<close> reports \<open>0\<close>.
\<close>

theorem Samples_counterexample:
  "trained_since_reset 1 [TrainBlock 1 ''A'' (Some 8), Fire 0 None] ex_ready 0 = 1 \<and>
   Samples ''A'' (run [TrainBlock 1 ''A'' (Some 8), Fire 0 None] ex_ready) = 0"
  by (simp add: ex_ready_eq op_defs Samples_def indexOf_def count_or_0_def counts_get_def)

text \<open>
  Claim C7, amended: \<^verbatim>\<open>Samples\<close> resolves the label to the first slot whose display
  label equals it and returns that slot's exemplar count, and \<open>0\<close> for a label that matches
  no slot.  Along every sequence of events the exemplar count of a slot is the number of
  training calls to that slot completed since it was last cleared (added to its count at the
  start).  So \<^verbatim>\<open>Samples\<close> reports that number for the slot the label resolves to; after
  a completed training call it reports the trained slot's count provided no slot of lower
  index carries the same label.
\<close>

theorem Samples_counts:
  "Samples s st =
     (if JString s \<in> set (trainTypes st)
      then length (exemplars (classifier st) (nat (indexOf (trainTypes st) (JString s))))
      else 0) \<and>
   (JString s \<in> set (trainTypes st) \<longrightarrow>
      (\<exists>n < length (trainTypes st). indexOf (trainTypes st) (JString s) = int n \<and>
         trainTypes st ! n = JString s \<and> (\<forall>m < n. trainTypes st ! m \<noteq> JString s))) \<and>
   length (exemplars (classifier (run evs st)) k) =
     trained_since_reset k evs st (length (exemplars (classifier st) k)) \<and>
   (indexOf (trainTypes (run evs st)) (JString s) = int k \<longrightarrow>
      Samples s (run evs st) =
        trained_since_reset k evs st (length (exemplars (classifier st) k))) \<and>
   (mobilenet st = Some infer \<and> (\<forall>m < k. js_get (trainTypes st) (int m) \<noteq> JString s) \<longrightarrow>
      Samples s (snd (train_onload k s f st)) = Suc (length (exemplars (classifier st) k)))"
proof (intro conjI impI)
  show "Samples s st =
     (if JString s \<in> set (trainTypes st)
      then length (exemplars (classifier st) (nat (indexOf (trainTypes st) (JString s))))
      else 0)" by (rule Samples_eq)
next
  assume "JString s \<in> set (trainTypes st)"
  from indexOf_from_first [OF this, of 0]
  show "\<exists>n < length (trainTypes st). indexOf (trainTypes st) (JString s) = int n \<and>
         trainTypes st ! n = JString s \<and> (\<forall>m < n. trainTypes st ! m \<noteq> JString s)"
    by (simp add: indexOf_def)
next
  show "length (exemplars (classifier (run evs st)) k) =
     trained_since_reset k evs st (length (exemplars (classifier st) k))" by (rule run_count)
next
  assume a: "indexOf (trainTypes (run evs st)) (JString s) = int k"
  then have "JString s \<in> set (trainTypes (run evs st))"
    using indexOf_nonneg_iff [of "trainTypes (run evs st)" "JString s"] by simp
  with a have "Samples s (run evs st) = length (exemplars (classifier (run evs st)) k)"
    by (simp add: Samples_eq)
  then show "Samples s (run evs st) =
      trained_since_reset k evs st (length (exemplars (classifier st) k))"
    by (simp add: run_count)
next
  assume a: "mobilenet st = Some infer \<and> (\<forall>m < k. js_get (trainTypes st) (int m) \<noteq> JString s)"
  then have ix: "indexOf (js_set (trainTypes st) k (JString s)) (JString s) = int k"
    by (intro indexOf_js_set) simp
  then have "JString s \<in> set (js_set (trainTypes st) k (JString s))"
    using indexOf_nonneg_iff [of "js_set (trainTypes st) k (JString s)" "JString s"] by simp
  with a ix show "Samples s (snd (train_onload k s f st)) =
      Suc (length (exemplars (classifier st) k))"
    by (simp add: Samples_eq train_onload_def Let_def exemplars_addExample)
qed

theorem Samples_counts_witness:
  "JString ''B'' \<in> set (trainTypes ex_two) \<and>
   indexOf (trainTypes ex_two) (JString ''B'') = 1 \<and>
   Samples ''B'' ex_two = 1 \<and> Samples ''Z'' ex_two = 0 \<and>
   indexOf (trainTypes (run ex_session ex_ready)) (JString ''X'') = 0 \<and>
   trained_since_reset 0 ex_session ex_ready 0 = 1 \<and>
   Samples ''X'' (run ex_session ex_ready) = 1 \<and>
   mobilenet ex_two = Some ex_infer \<and>
   js_get (trainTypes ex_two) 0 \<noteq> JString ''B'' \<and>
   Samples ''B'' (snd (train_onload 1 ''B'' 5 ex_two)) = 2"
proof -
  have a: "JString ''B'' \<in> set (trainTypes ex_two)"
    "indexOf (trainTypes ex_two) (JString ''B'') = 1"
    "JString ''Z'' \<notin> set (trainTypes ex_two)"
    "length (exemplars (classifier ex_two) 1) = 1"
    "mobilenet ex_two = Some ex_infer"
    "\<forall>m < 1. js_get (trainTypes ex_two) (int m) \<noteq> JString ''B''"
    by (simp_all add: ex_two_eq ex_ready_eq indexOf_def exemplars_def js_get_def)
  have b: "indexOf (trainTypes (run ex_session ex_ready)) (JString ''X'') = int 0"
    "length (exemplars (classifier ex_ready) 0) = 0"
    unfolding ex_session_run by (simp_all add: ex_ready_eq indexOf_def exemplars_def)
  have c: "Samples ''B'' ex_two = 1 \<and> Samples ''B'' (snd (train_onload 1 ''B'' 5 ex_two)) = 2"
    using a Samples_counts [of "''B''" ex_two "[]" 1 ex_infer 5] by simp
  have d: "Samples ''Z'' ex_two = 0"
    using a Samples_counts [of "''Z''" ex_two "[]" 1 ex_infer 5] by simp
  have e: "Samples ''X'' (run ex_session ex_ready) = 1"
    using b ex_session_count Samples_counts [of "''X''" ex_ready ex_session 0 ex_infer 5] by simp
  have g: "js_get (trainTypes ex_two) 0 \<noteq> JString ''B''"
    by (simp add: ex_two_eq ex_ready_eq js_get_def)
  from a(1-5) b c d e g ex_session_count show ?thesis by simp
qed

end
